theory Spec2Isabelle
  imports Main
begin

section \<open>Data model\<close>

text \<open>
  The documents of the three collections, as the Mongoose schemas declare them
  (models/Comment.js, the Blog model, and the User schema listed in README.md).
  An ObjectId is a natural number, a Date is a number of milliseconds.

  A JavaScript string is the list of its UTF-16 code units, so that \<open>length\<close> is
  the JavaScript \<open>length\<close>; \<open>js\<close> gives the code units of an ASCII literal.

  The \<open>views\<close> counter is a JavaScript Number. The model holds the Numbers that
  are integers, as the integer they denote; arithmetic on them rounds to the
  nearest double (\<open>toDouble\<close> below).
\<close>

type_synonym objectId = nat
type_synonym date = int
type_synonym jsString = "nat list"

definition js :: "string \<Rightarrow> jsString" where
  "js s = map of_char s"

datatype role = RoleUser | RoleAdmin

datatype status = Draft | Published

record user =
  u_id :: objectId
  u_name :: jsString
  u_email :: jsString
  u_password :: jsString
  u_role :: role
  u_avatar :: jsString
  u_bio :: jsString

record blog =
  b_id :: objectId
  b_title :: jsString
  b_content :: jsString
  b_excerpt :: jsString
  b_author :: objectId
  b_tags :: "jsString list"
  b_featuredImage :: jsString
  b_status :: status
  b_views :: int
  b_likes :: "objectId list"
  b_isPublished :: bool
  b_createdAt :: date
  b_updatedAt :: date

record comment =
  c_id :: objectId
  c_content :: jsString
  c_author :: objectId
  c_blog :: objectId
  c_parentComment :: "objectId option"
  c_isEdited :: bool
  c_editedAt :: "date option"
  c_likes :: "objectId list"
  c_isActive :: bool
  c_createdAt :: date
  c_updatedAt :: date

text \<open>The database: one list of documents per collection, in insertion order.\<close>

record db =
  users :: "user list"
  blogs :: "blog list"
  comments :: "comment list"

text \<open>
  The outcomes of section 7 of the specification that the handlers produce.
  \<open>ServerError\<close> is an error thrown by a database call (a negative skip, a
  duplicate \<open>_id\<close>, a write to \<open>_id\<close>), which the error middleware answers.
\<close>

datatype error = NotFound | Forbidden | ValidationFailed | DuplicateEmail | ServerError

text \<open>
  A JSON request body: every schema path may be present or absent, \<open>_id\<close> and
  \<open>createdAt\<close> included. For \<open>parentComment\<close> the value \<open>Some None\<close> is an explicit
  null. A \<open>views\<close> of the body is an integral number.
\<close>

record commentBody =
  cb_id :: "objectId option"
  cb_content :: "jsString option"
  cb_author :: "objectId option"
  cb_blog :: "objectId option"
  cb_parentComment :: "objectId option option"
  cb_isEdited :: "bool option"
  cb_editedAt :: "date option"
  cb_likes :: "objectId list option"
  cb_isActive :: "bool option"
  cb_createdAt :: "date option"

record blogBody =
  bb_id :: "objectId option"
  bb_title :: "jsString option"
  bb_content :: "jsString option"
  bb_excerpt :: "jsString option"
  bb_author :: "objectId option"
  bb_tags :: "jsString list option"
  bb_featuredImage :: "jsString option"
  bb_status :: "status option"
  bb_views :: "int option"
  bb_likes :: "objectId list option"
  bb_isPublished :: "bool option"
  bb_createdAt :: "date option"

record registerBody =
  rb_name :: jsString
  rb_email :: jsString
  rb_password :: jsString

text \<open>
  The query string of a list endpoint: the results of \<open>parseInt\<close>, where
  \<open>None\<close> is NaN (parameter absent or not a number).
\<close>

record query =
  q_page :: "int option"
  q_limit :: "int option"

record 'a listing =
  l_count :: nat
  l_total :: nat
  l_page :: int
  l_pages :: int
  l_data :: "'a list"

text \<open>
  The value of a virtual populated with \<open>count: true\<close>. For a local field that is
  an array (\<open>likes\<close>), Mongoose gives a number when every entry of the array has
  its document, and otherwise an array with one number per entry.
\<close>

datatype countValue = Count nat | CountPerEntry "nat list"

text \<open>
  The items of the list responses and of the single-post response: the document
  with the virtuals that the handler populates (\<open>None\<close>: not populated). The
  populated \<open>author\<close> and \<open>blog\<close> of the responses (selected fields of the referenced
  document in place of its id) are not part of the items.
\<close>

record commentItem =
  ci_doc :: comment
  ci_likeCount :: countValue
  ci_repliesCount :: "nat option"

record blogItem =
  bi_doc :: blog
  bi_commentCount :: nat
  bi_likeCount :: countValue

section \<open>Collection primitives\<close>

text \<open>\<open>Model.findById\<close>: the first document with the given id.\<close>

definition User_findById :: "db \<Rightarrow> objectId \<Rightarrow> user option" where
  "User_findById d i = find (\<lambda>u. u_id u = i) (users d)"

definition Blog_findById :: "db \<Rightarrow> objectId \<Rightarrow> blog option" where
  "Blog_findById d i = find (\<lambda>b. b_id b = i) (blogs d)"

definition Comment_findById :: "db \<Rightarrow> objectId \<Rightarrow> comment option" where
  "Comment_findById d i = find (\<lambda>c. c_id c = i) (comments d)"

text \<open>An update of one document: the first match is rewritten, the others stay.\<close>

fun updateFirst :: "('a \<Rightarrow> bool) \<Rightarrow> ('a \<Rightarrow> 'a) \<Rightarrow> 'a list \<Rightarrow> 'a list" where
  "updateFirst P f [] = []"
| "updateFirst P f (x # xs) = (if P x then f x # xs else x # updateFirst P f xs)"

text \<open>\<open>findByIdAndDelete\<close>: the first match is removed.\<close>

fun deleteFirst :: "('a \<Rightarrow> bool) \<Rightarrow> 'a list \<Rightarrow> 'a list" where
  "deleteFirst P [] = []"
| "deleteFirst P (x # xs) = (if P x then xs else x # deleteFirst P xs)"

text \<open>
  \<open>String.prototype.trim\<close>, applied by the schema option \<open>trim: true\<close>: it strips
  the WhiteSpace and LineTerminator code units of ECMAScript from both ends
  (tab, LF, VT, FF, CR, space, U+00A0, U+1680, U+2000 to U+200A, U+2028, U+2029,
  U+202F, U+205F, U+3000, U+FEFF).
\<close>

definition isWhiteSpace :: "nat \<Rightarrow> bool" where
  "isWhiteSpace cu =
     (cu \<in> set [0x09, 0x0A, 0x0B, 0x0C, 0x0D, 0x20, 0xA0, 0x1680, 0x2028, 0x2029, 0x202F,
                 0x205F, 0x3000, 0xFEFF]
      \<or> (0x2000 \<le> cu \<and> cu \<le> 0x200A))"

definition trim :: "jsString \<Rightarrow> jsString" where
  "trim s = rev (dropWhile isWhiteSpace (rev (dropWhile isWhiteSpace s)))"

text \<open>
  Numbers. \<open>bitLength n\<close> is the number of binary digits of \<open>n\<close>. \<open>toDouble x\<close> is
  the double nearest to the integer \<open>x\<close> (ties to the even significand), for a
  magnitude below \<open>2 ^ 1024\<close>: integers up to \<open>2 ^ 53\<close> in magnitude are doubles;
  a larger one is rounded to 53 significant bits. \<open>jsAdd\<close> is \<open>+\<close> on Numbers
  that hold integers.
\<close>

fun bitLength :: "nat \<Rightarrow> nat" where
  "bitLength n = (if n = 0 then 0 else Suc (bitLength (n div 2)))"

declare bitLength.simps [simp del]

definition toDouble :: "int \<Rightarrow> int" where
  "toDouble x =
     (let a = \<bar>x\<bar>
      in if a \<le> 2 ^ 53 then x
         else
           (let u = 2 ^ (bitLength (nat a) - 53);
                q = a div u;
                r = a mod u;
                q' = (if 2 * r < u then q
                      else if u < 2 * r then q + 1
                      else if even q then q else q + 1)
            in sgn x * (q' * u)))"

definition jsAdd :: "int \<Rightarrow> int \<Rightarrow> int" where
  "jsAdd x y = toDouble (x + y)"

text \<open>
  \<open>parseInt(req.query.x) || dflt\<close>: NaN and 0 are falsy and give the default.
\<close>

definition orDefault :: "int option \<Rightarrow> int \<Rightarrow> int" where
  "orDefault v dflt = (case v of None \<Rightarrow> dflt | Some n \<Rightarrow> if n = 0 then dflt else n)"

text \<open>
  The common tail of every list handler: \<open>docs\<close> is the result of
  \<open>find(filter).sort(...)\<close>, to which \<open>.skip(skip).limit(limit)\<close> is applied;
  \<open>total\<close> is \<open>countDocuments(filter)\<close>. The server rejects a negative skip
  (the handler then ends in the error middleware); the driver sends a negative
  limit as its absolute value. \<open>pages\<close> is \<open>Math.ceil(total / limit)\<close>.
\<close>

definition respondList :: "query \<Rightarrow> 'a list \<Rightarrow> error + 'a listing" where
  "respondList q docs =
     (let page = orDefault (q_page q) 1;
          limit = orDefault (q_limit q) 10;
          skip = (page - 1) * limit
      in if skip < 0 then Inl ServerError
         else let data = take (nat \<bar>limit\<bar>) (drop (nat skip) docs);
                  total = length docs
              in Inr \<lparr> l_count = length data, l_total = total, l_page = page,
                       l_pages = - ((- int total) div limit), l_data = data \<rparr>)"

text \<open>\<open>sort({ createdAt: 1 })\<close> and \<open>sort({ createdAt: -1 })\<close>.\<close>

definition sortAsc :: "comment list \<Rightarrow> comment list" where
  "sortAsc cs = sort_key c_createdAt cs"

definition sortDesc :: "comment list \<Rightarrow> comment list" where
  "sortDesc cs = sort_key (\<lambda>c. - c_createdAt c) cs"

text \<open>
  A virtual populated with \<open>count: true\<close> over an array of user ids: each entry is
  looked up among the users; when every entry has its user the value is the
  number of entries, otherwise it is the array with 1 for an entry that has its
  user and 0 for one that has none.
\<close>

definition populatedUserCount :: "db \<Rightarrow> objectId list \<Rightarrow> countValue" where
  "populatedUserCount d ids =
     (let hits = map (User_findById d) ids
      in if None \<in> set hits
         then CountPerEntry (map (\<lambda>h. case h of None \<Rightarrow> 0 | Some u \<Rightarrow> 1) hits)
         else Count (length hits))"

section \<open>Like toggle (models/Comment.js 80-88, Blog model 132-140)\<close>

text \<open>\<open>Array.prototype.indexOf\<close>: the first index of the element, or -1.\<close>

fun indexOf :: "'a list \<Rightarrow> 'a \<Rightarrow> int" where
  "indexOf [] y = - 1"
| "indexOf (x # xs) y =
     (if x = y then 0 else (let i = indexOf xs y in if i > - 1 then i + 1 else - 1))"

text \<open>\<open>splice(i, 1)\<close> for an index inside the array.\<close>

definition splice1 :: "'a list \<Rightarrow> int \<Rightarrow> 'a list" where
  "splice1 xs i = take (nat i) xs @ drop (Suc (nat i)) xs"

definition toggleLikes :: "objectId list \<Rightarrow> objectId \<Rightarrow> objectId list" where
  "toggleLikes likes userId =
     (let likeIndex = indexOf likes userId
      in if likeIndex > - 1 then splice1 likes likeIndex else likes @ [userId])"

section \<open>Middleware that the routes import\<close>

text \<open>
  \<open>protect\<close> resolves the bearer token to the document of a live user and stores it
  in \<open>req.user\<close>; the handlers below take that user as the argument \<open>req_user\<close>.

  The request validators \<open>validateComment\<close>, \<open>validateBlog\<close> and
  \<open>validateUserRegistration\<close> live in middleware/validation.js, which is not part of
  the sources. The handlers read \<open>req.body\<close> as the client sent it, so each handler
  takes the validator as a parameter: its verdict on the body.
\<close>

text \<open>
  Modelled from the spec: \<open>validateComment\<close> of middleware/validation.js is
  absent. Section 6: the validator guarantees that required fields are present
  and well-typed (content length bounds); the bounds are those of the comment
  schema. Used where a handler is evaluated on a concrete request.
\<close>

definition validateComment_model :: "commentBody \<Rightarrow> bool" where
  "validateComment_model body =
     (case cb_content body of
        None \<Rightarrow> False
      | Some s \<Rightarrow> 1 \<le> length (trim s) \<and> length (trim s) \<le> 1000)"

text \<open>
  Modelled from the spec: \<open>validateBlog\<close> of middleware/validation.js is absent.
  Section 6, with the bounds of the blog schema for title and content.
\<close>

definition validateBlog_model :: "blogBody \<Rightarrow> bool" where
  "validateBlog_model body =
     (case bb_title body of
        None \<Rightarrow> False
      | Some t \<Rightarrow>
          (case bb_content body of
             None \<Rightarrow> False
           | Some s \<Rightarrow> 1 \<le> length (trim t) \<and> length (trim t) \<le> 200 \<and> 50 \<le> length s))"

text \<open>
  Modelled from the spec: \<open>validateUserRegistration\<close> of middleware/validation.js
  is absent. Section 6: name, email and password are present and the email has
  the shape of an address (it holds the code unit of \<open>@\<close>).
\<close>

definition validateUserRegistration_model :: "registerBody \<Rightarrow> bool" where
  "validateUserRegistration_model body =
     (rb_name body \<noteq> [] \<and> 64 \<in> set (rb_email body) \<and> rb_password body \<noteq> [])"

text \<open>
  Modelled from the spec: \<open>checkOwnership\<close> of middleware/auth.js is absent.
  Section 4.3: \<open>authorizeOwnership(principal, resource)\<close> fails with Forbidden
  unless \<open>principal.id == resource.author\<close> or \<open>principal.role == admin\<close>;
  section 7: NotFound when the referenced resource is absent. The result is the
  error the middleware answers with, or \<open>None\<close> when it calls \<open>next()\<close>.
\<close>

definition checkOwnership :: "'r option \<Rightarrow> ('r \<Rightarrow> objectId) \<Rightarrow> user \<Rightarrow> error option" where
  "checkOwnership resource author_of req_user =
     (case resource of
        None \<Rightarrow> Some NotFound
      | Some r \<Rightarrow>
          if author_of r = u_id req_user \<or> u_role req_user = RoleAdmin then None
          else Some Forbidden)"

text \<open>
  Modelled from the spec: \<open>authorize\<close> of middleware/auth.js is absent.
  Section 4.3: \<open>authorizeRole\<close> fails with Forbidden when the principal's role does
  not meet the requirement; admin satisfies any requirement.
\<close>

definition authorize :: "role \<Rightarrow> user \<Rightarrow> bool" where
  "authorize required req_user = (u_role req_user = required \<or> u_role req_user = RoleAdmin)"

section \<open>Comment model (models/Comment.js)\<close>

text \<open>
  The virtual \<open>likeCount\<close> (lines 51-56: ref User, local field \<open>likes\<close>, foreign
  field \<open>_id\<close>, \<open>count: true\<close>) and the virtual \<open>repliesCount\<close> (lines 59-64: ref
  Comment, local field \<open>_id\<close>, foreign field \<open>parentComment\<close>, \<open>count: true\<close>, no
  match on \<open>isActive\<close>), as \<open>populate\<close> computes them.
\<close>

definition Comment_likeCount :: "db \<Rightarrow> comment \<Rightarrow> countValue" where
  "Comment_likeCount d c = populatedUserCount d (c_likes c)"

definition Comment_repliesCount :: "db \<Rightarrow> comment \<Rightarrow> nat" where
  "Comment_repliesCount d c =
     length (filter (\<lambda>x. c_parentComment x = Some (c_id c)) (comments d))"

text \<open>
  The \<open>pre('save')\<close> hook (lines 71-77): \<open>contentModified\<close> is
  \<open>this.isModified('content')\<close>, \<open>isNew\<close> is \<open>this.isNew\<close>.
\<close>

definition Comment_preSave :: "bool \<Rightarrow> bool \<Rightarrow> date \<Rightarrow> comment \<Rightarrow> comment" where
  "Comment_preSave contentModified isNew now c =
     (if contentModified \<and> \<not> isNew then c\<lparr>c_isEdited := True, c_editedAt := Some now\<rparr>
      else c)"

text \<open>
  \<open>doc.save()\<close> of a modified document loaded from the collection: the save hook
  runs, \<open>timestamps: true\<close> stamps \<open>updatedAt\<close>, and the stored document is
  rewritten. (Its one caller, \<open>toggleLike\<close>, has always modified \<open>likes\<close>.)
\<close>

definition Comment_save :: "db \<Rightarrow> comment \<Rightarrow> bool \<Rightarrow> date \<Rightarrow> db \<times> comment" where
  "Comment_save d doc contentModified now =
     (let doc' = (Comment_preSave contentModified False now doc)\<lparr>c_updatedAt := now\<rparr>
      in (d\<lparr>comments := updateFirst (\<lambda>c. c_id c = c_id doc) (\<lambda>_. doc') (comments d)\<rparr>, doc'))"

text \<open>
  \<open>Comment.create(body)\<close>: the schema paths of the body are taken (\<open>_id\<close> and
  \<open>createdAt\<close> too), the defaults fill the absent ones (\<open>newId\<close> is the generated
  \<open>_id\<close>), the schema validators run (content: required, trimmed, 1 to 1000
  characters; author and blog: required), the save hook runs on the new
  document, \<open>createdAt\<close> is stamped unless given and \<open>updatedAt\<close> is set to it,
  and the document is inserted; the insert fails on an \<open>_id\<close> that the
  collection already holds.
\<close>

definition Comment_create :: "db \<Rightarrow> commentBody \<Rightarrow> objectId \<Rightarrow> date \<Rightarrow> db \<times> (error + comment)" where
  "Comment_create d body newId now =
     (case cb_content body of
        None \<Rightarrow> (d, Inl ValidationFailed)
      | Some content \<Rightarrow>
          (case cb_author body of
             None \<Rightarrow> (d, Inl ValidationFailed)
           | Some author \<Rightarrow>
               (case cb_blog body of
                  None \<Rightarrow> (d, Inl ValidationFailed)
                | Some blogId \<Rightarrow>
                    if length (trim content) < 1 \<or> 1000 < length (trim content)
                    then (d, Inl ValidationFailed)
                    else
                      (let created = (case cb_createdAt body of None \<Rightarrow> now | Some t \<Rightarrow> t);
                           doc = Comment_preSave True True now
                             \<lparr> c_id = (case cb_id body of None \<Rightarrow> newId | Some i \<Rightarrow> i),
                               c_content = trim content,
                               c_author = author,
                               c_blog = blogId,
                               c_parentComment =
                                 (case cb_parentComment body of None \<Rightarrow> None | Some p \<Rightarrow> p),
                               c_isEdited =
                                 (case cb_isEdited body of None \<Rightarrow> False | Some e \<Rightarrow> e),
                               c_editedAt = cb_editedAt body,
                               c_likes = (case cb_likes body of None \<Rightarrow> [] | Some l \<Rightarrow> l),
                               c_isActive =
                                 (case cb_isActive body of None \<Rightarrow> True | Some a \<Rightarrow> a),
                               c_createdAt = created,
                               c_updatedAt = created \<rparr>
                       in if c_id doc \<in> set (map c_id (comments d)) then (d, Inl ServerError)
                          else (d\<lparr>comments := comments d @ [doc]\<rparr>, Inr doc)))))"

text \<open>
  \<open>Comment.findByIdAndUpdate(id, body, { new: true, runValidators })\<close>: the paths
  present in the body are set on the stored document and \<open>updatedAt\<close> is stamped
  (a \<open>createdAt\<close> of the body is dropped). This is a query, not \<open>save()\<close>:
  document middleware such as the save hook does not run. With
  \<open>runValidators\<close> the validators of the paths being set run. The database
  rejects an update that would change the \<open>_id\<close> of the matched document. The
  result is the updated document, or null when no document has the id.
\<close>

definition applyCommentBody :: "commentBody \<Rightarrow> date \<Rightarrow> comment \<Rightarrow> comment" where
  "applyCommentBody body now c =
     c\<lparr> c_content := (case cb_content body of None \<Rightarrow> c_content c | Some s \<Rightarrow> trim s),
        c_author := (case cb_author body of None \<Rightarrow> c_author c | Some a \<Rightarrow> a),
        c_blog := (case cb_blog body of None \<Rightarrow> c_blog c | Some b \<Rightarrow> b),
        c_parentComment :=
          (case cb_parentComment body of None \<Rightarrow> c_parentComment c | Some p \<Rightarrow> p),
        c_isEdited := (case cb_isEdited body of None \<Rightarrow> c_isEdited c | Some e \<Rightarrow> e),
        c_editedAt := (case cb_editedAt body of None \<Rightarrow> c_editedAt c | Some t \<Rightarrow> Some t),
        c_likes := (case cb_likes body of None \<Rightarrow> c_likes c | Some l \<Rightarrow> l),
        c_isActive := (case cb_isActive body of None \<Rightarrow> c_isActive c | Some a \<Rightarrow> a),
        c_updatedAt := now \<rparr>"

definition commentUpdateValid :: "commentBody \<Rightarrow> bool" where
  "commentUpdateValid body =
     (case cb_content body of
        None \<Rightarrow> True
      | Some s \<Rightarrow> 1 \<le> length (trim s) \<and> length (trim s) \<le> 1000)"

definition changesId :: "objectId option \<Rightarrow> objectId \<Rightarrow> bool" where
  "changesId bodyId i = (case bodyId of None \<Rightarrow> False | Some j \<Rightarrow> j \<noteq> i)"

definition Comment_findByIdAndUpdate ::
  "db \<Rightarrow> objectId \<Rightarrow> commentBody \<Rightarrow> bool \<Rightarrow> date \<Rightarrow> db \<times> (error + comment option)" where
  "Comment_findByIdAndUpdate d i body runValidators now =
     (if runValidators \<and> \<not> commentUpdateValid body then (d, Inl ValidationFailed)
      else if changesId (cb_id body) i \<and> Comment_findById d i \<noteq> None then (d, Inl ServerError)
      else
        (let d' = d\<lparr>comments :=
                     updateFirst (\<lambda>c. c_id c = i) (applyCommentBody body now) (comments d)\<rparr>
         in (d', Inr (Comment_findById d' i))))"

text \<open>The method \<open>toggleLike\<close> (lines 80-88): only \<open>likes\<close> is modified.\<close>

definition Comment_toggleLike :: "db \<Rightarrow> comment \<Rightarrow> objectId \<Rightarrow> date \<Rightarrow> db \<times> comment" where
  "Comment_toggleLike d doc userId now =
     Comment_save d (doc\<lparr>c_likes := toggleLikes (c_likes doc) userId\<rparr>) False now"

definition emptyCommentBody :: commentBody where
  "emptyCommentBody =
     \<lparr> cb_id = None, cb_content = None, cb_author = None, cb_blog = None,
       cb_parentComment = None, cb_isEdited = None, cb_editedAt = None, cb_likes = None,
       cb_isActive = None, cb_createdAt = None \<rparr>"

section \<open>Comment routes (src/unnamed/part_000)\<close>

text \<open>
  The items of the list responses: \<open>.populate('likeCount')\<close> in all four list
  handlers, \<open>.populate('repliesCount')\<close> in the top-level listing only.
\<close>

definition commentItemOf :: "db \<Rightarrow> bool \<Rightarrow> comment \<Rightarrow> commentItem" where
  "commentItemOf d withReplies c =
     \<lparr> ci_doc = c, ci_likeCount = Comment_likeCount d c,
       ci_repliesCount = (if withReplies then Some (Comment_repliesCount d c) else None) \<rparr>"

text \<open>GET /api/comments/:blogId (lines 12-52).\<close>

definition getComments :: "db \<Rightarrow> objectId \<Rightarrow> query \<Rightarrow> error + commentItem listing" where
  "getComments d blogId q =
     (case Blog_findById d blogId of
        None \<Rightarrow> Inl NotFound
      | Some blog \<Rightarrow>
          respondList q
            (map (commentItemOf d True)
               (sortDesc
                  (filter (\<lambda>c. c_blog c = blogId \<and> c_isActive c \<and> c_parentComment c = None)
                     (comments d)))))"

text \<open>GET /api/comments/:commentId/replies (lines 57-85).\<close>

definition getReplies :: "db \<Rightarrow> objectId \<Rightarrow> query \<Rightarrow> error + commentItem listing" where
  "getReplies d commentId q =
     respondList q
       (map (commentItemOf d False)
          (sortAsc
             (filter (\<lambda>c. c_parentComment c = Some commentId \<and> c_isActive c) (comments d))))"

text \<open>GET /api/comments/user/:userId (lines 201-230).\<close>

definition getUserComments :: "db \<Rightarrow> objectId \<Rightarrow> query \<Rightarrow> error + commentItem listing" where
  "getUserComments d userId q =
     respondList q
       (map (commentItemOf d False)
          (sortDesc (filter (\<lambda>c. c_author c = userId \<and> c_isActive c) (comments d))))"

text \<open>GET /api/comments/admin/all (lines 235-258): \<open>Comment.find()\<close>, no filter.\<close>

definition getAllComments :: "db \<Rightarrow> user \<Rightarrow> query \<Rightarrow> error + commentItem listing" where
  "getAllComments d req_user q =
     (if authorize RoleAdmin req_user
      then respondList q (map (commentItemOf d False) (sortDesc (comments d)))
      else Inl Forbidden)"

text \<open>POST /api/comments/:blogId (lines 90-114).\<close>

definition postComment ::
  "(commentBody \<Rightarrow> bool) \<Rightarrow> db \<Rightarrow> user \<Rightarrow> objectId \<Rightarrow> commentBody \<Rightarrow> objectId \<Rightarrow> date
     \<Rightarrow> db \<times> (error + comment)" where
  "postComment validateComment d req_user blogId body newId now =
     (if \<not> validateComment body then (d, Inl ValidationFailed)
      else
        (case Blog_findById d blogId of
           None \<Rightarrow> (d, Inl NotFound)
         | Some blog \<Rightarrow>
             Comment_create d
               (body\<lparr>cb_author := Some (u_id req_user), cb_blog := Some blogId\<rparr>) newId now))"

text \<open>POST /api/comments/:commentId/reply (lines 119-144).\<close>

definition postReply ::
  "(commentBody \<Rightarrow> bool) \<Rightarrow> db \<Rightarrow> user \<Rightarrow> objectId \<Rightarrow> commentBody \<Rightarrow> objectId \<Rightarrow> date
     \<Rightarrow> db \<times> (error + comment)" where
  "postReply validateComment d req_user commentId body newId now =
     (if \<not> validateComment body then (d, Inl ValidationFailed)
      else
        (case Comment_findById d commentId of
           None \<Rightarrow> (d, Inl NotFound)
         | Some parentComment \<Rightarrow>
             Comment_create d
               (body\<lparr>cb_author := Some (u_id req_user),
                     cb_blog := Some (c_blog parentComment),
                     cb_parentComment := Some (Some commentId)\<rparr>) newId now))"

text \<open>PUT /api/comments/:id (lines 149-161): protect, checkOwnership, validateComment.\<close>

definition putComment ::
  "(commentBody \<Rightarrow> bool) \<Rightarrow> db \<Rightarrow> user \<Rightarrow> objectId \<Rightarrow> commentBody \<Rightarrow> date
     \<Rightarrow> db \<times> (error + comment option)" where
  "putComment validateComment d req_user i body now =
     (case checkOwnership (Comment_findById d i) c_author req_user of
        Some e \<Rightarrow> (d, Inl e)
      | None \<Rightarrow>
          if \<not> validateComment body then (d, Inl ValidationFailed)
          else Comment_findByIdAndUpdate d i body True now)"

text \<open>DELETE /api/comments/:id (lines 166-174): the soft delete.\<close>

definition deleteComment :: "db \<Rightarrow> user \<Rightarrow> objectId \<Rightarrow> date \<Rightarrow> db \<times> (error + unit)" where
  "deleteComment d req_user i now =
     (case checkOwnership (Comment_findById d i) c_author req_user of
        Some e \<Rightarrow> (d, Inl e)
      | None \<Rightarrow>
          (case Comment_findByIdAndUpdate d i (emptyCommentBody\<lparr>cb_isActive := Some False\<rparr>)
                  False now of
             (d', Inl e) \<Rightarrow> (d', Inl e)
           | (d', Inr _) \<Rightarrow> (d', Inr ())))"

text \<open>PUT /api/comments/:id/like (lines 179-196).\<close>

definition likeComment :: "db \<Rightarrow> user \<Rightarrow> objectId \<Rightarrow> date \<Rightarrow> db \<times> (error + comment)" where
  "likeComment d req_user i now =
     (case Comment_findById d i of
        None \<Rightarrow> (d, Inl NotFound)
      | Some comment \<Rightarrow>
          (case Comment_toggleLike d comment (u_id req_user) now of
             (d', comment') \<Rightarrow> (d', Inr comment')))"

section \<open>Blog model (src/unnamed/part_001, from line 47)\<close>

text \<open>
  The virtual \<open>commentCount\<close> (lines 106-111: ref Comment, local field \<open>_id\<close>,
  foreign field \<open>blog\<close>, \<open>count: true\<close>, no match on \<open>isActive\<close>) and the virtual
  \<open>likeCount\<close> (lines 114-119), as \<open>populate\<close> computes them.
\<close>

definition Blog_commentCount :: "db \<Rightarrow> blog \<Rightarrow> nat" where
  "Blog_commentCount d b = length (filter (\<lambda>c. c_blog c = b_id b) (comments d))"

definition Blog_likeCount :: "db \<Rightarrow> blog \<Rightarrow> countValue" where
  "Blog_likeCount d b = populatedUserCount d (b_likes b)"

text \<open>
  \<open>doc.save()\<close> of a blog loaded from the collection. When a path is modified,
  \<open>timestamps: true\<close> stamps \<open>updatedAt\<close> and the stored document is rewritten;
  when no path is modified, \<open>save()\<close> writes nothing.
\<close>

definition Blog_save :: "db \<Rightarrow> blog \<Rightarrow> bool \<Rightarrow> date \<Rightarrow> db \<times> blog" where
  "Blog_save d doc modified now =
     (if modified
      then (let doc' = doc\<lparr>b_updatedAt := now\<rparr>
            in (d\<lparr>blogs := updateFirst (\<lambda>b. b_id b = b_id doc) (\<lambda>_. doc') (blogs d)\<rparr>, doc'))
      else (d, doc))"

text \<open>
  The method \<open>incrementViews\<close> (lines 126-129): \<open>this.views += 1\<close> in double
  arithmetic; the path is modified when the value has changed.
\<close>

definition Blog_incrementViews :: "db \<Rightarrow> blog \<Rightarrow> date \<Rightarrow> db \<times> blog" where
  "Blog_incrementViews d doc now =
     (let v = jsAdd (b_views doc) 1
      in Blog_save d (doc\<lparr>b_views := v\<rparr>) (v \<noteq> b_views doc) now)"

text \<open>
  The method \<open>toggleLike\<close> (lines 132-140): \<open>splice\<close> or \<open>push\<close> modifies
  \<open>likes\<close>.
\<close>

definition Blog_toggleLike :: "db \<Rightarrow> blog \<Rightarrow> objectId \<Rightarrow> date \<Rightarrow> db \<times> blog" where
  "Blog_toggleLike d doc userId now =
     Blog_save d (doc\<lparr>b_likes := toggleLikes (b_likes doc) userId\<rparr>) True now"

text \<open>
  \<open>Blog.create(body)\<close>: the schema paths of the body (\<open>_id\<close> and \<open>createdAt\<close>
  too), the schema validators (title: required, trimmed, at most 200
  characters; content: required, at least 50; excerpt: at most 500; author:
  required), the schema defaults and the timestamps; the insert fails on an
  \<open>_id\<close> that the collection already holds.
\<close>

definition Blog_create :: "db \<Rightarrow> blogBody \<Rightarrow> objectId \<Rightarrow> date \<Rightarrow> db \<times> (error + blog)" where
  "Blog_create d body newId now =
     (case bb_title body of
        None \<Rightarrow> (d, Inl ValidationFailed)
      | Some title \<Rightarrow>
          (case bb_content body of
             None \<Rightarrow> (d, Inl ValidationFailed)
           | Some content \<Rightarrow>
               (case bb_author body of
                  None \<Rightarrow> (d, Inl ValidationFailed)
                | Some author \<Rightarrow>
                    (let excerpt = (case bb_excerpt body of None \<Rightarrow> [] | Some e \<Rightarrow> e)
                     in if trim title = [] \<or> 200 < length (trim title) \<or> length content < 50
                           \<or> 500 < length excerpt
                        then (d, Inl ValidationFailed)
                        else
                          (let created = (case bb_createdAt body of None \<Rightarrow> now | Some t \<Rightarrow> t);
                               doc =
                             \<lparr> b_id = (case bb_id body of None \<Rightarrow> newId | Some i \<Rightarrow> i),
                               b_title = trim title,
                               b_content = content,
                               b_excerpt = excerpt,
                               b_author = author,
                               b_tags = (case bb_tags body of None \<Rightarrow> [] | Some ts \<Rightarrow> map trim ts),
                               b_featuredImage =
                                 (case bb_featuredImage body of None \<Rightarrow> [] | Some f \<Rightarrow> f),
                               b_status =
                                 (case bb_status body of None \<Rightarrow> Published | Some st \<Rightarrow> st),
                               b_views =
                                 (case bb_views body of None \<Rightarrow> 0 | Some v \<Rightarrow> toDouble v),
                               b_likes = (case bb_likes body of None \<Rightarrow> [] | Some l \<Rightarrow> l),
                               b_isPublished =
                                 (case bb_isPublished body of None \<Rightarrow> True | Some p \<Rightarrow> p),
                               b_createdAt = created,
                               b_updatedAt = created \<rparr>
                           in if b_id doc \<in> set (map b_id (blogs d)) then (d, Inl ServerError)
                              else (d\<lparr>blogs := blogs d @ [doc]\<rparr>, Inr doc))))))"

text \<open>\<open>Blog.findByIdAndUpdate(id, body, { new: true, runValidators: true })\<close>.\<close>

definition applyBlogBody :: "blogBody \<Rightarrow> date \<Rightarrow> blog \<Rightarrow> blog" where
  "applyBlogBody body now b =
     b\<lparr> b_title := (case bb_title body of None \<Rightarrow> b_title b | Some t \<Rightarrow> trim t),
        b_content := (case bb_content body of None \<Rightarrow> b_content b | Some s \<Rightarrow> s),
        b_excerpt := (case bb_excerpt body of None \<Rightarrow> b_excerpt b | Some e \<Rightarrow> e),
        b_author := (case bb_author body of None \<Rightarrow> b_author b | Some a \<Rightarrow> a),
        b_tags := (case bb_tags body of None \<Rightarrow> b_tags b | Some ts \<Rightarrow> map trim ts),
        b_featuredImage :=
          (case bb_featuredImage body of None \<Rightarrow> b_featuredImage b | Some f \<Rightarrow> f),
        b_status := (case bb_status body of None \<Rightarrow> b_status b | Some st \<Rightarrow> st),
        b_views := (case bb_views body of None \<Rightarrow> b_views b | Some v \<Rightarrow> toDouble v),
        b_likes := (case bb_likes body of None \<Rightarrow> b_likes b | Some l \<Rightarrow> l),
        b_isPublished := (case bb_isPublished body of None \<Rightarrow> b_isPublished b | Some p \<Rightarrow> p),
        b_updatedAt := now \<rparr>"

definition blogUpdateValid :: "blogBody \<Rightarrow> bool" where
  "blogUpdateValid body =
     ((case bb_title body of
         None \<Rightarrow> True
       | Some t \<Rightarrow> trim t \<noteq> [] \<and> length (trim t) \<le> 200)
      \<and> (case bb_content body of None \<Rightarrow> True | Some s \<Rightarrow> 50 \<le> length s)
      \<and> (case bb_excerpt body of None \<Rightarrow> True | Some e \<Rightarrow> length e \<le> 500))"

definition Blog_findByIdAndUpdate ::
  "db \<Rightarrow> objectId \<Rightarrow> blogBody \<Rightarrow> date \<Rightarrow> db \<times> (error + blog option)" where
  "Blog_findByIdAndUpdate d i body now =
     (if \<not> blogUpdateValid body then (d, Inl ValidationFailed)
      else if changesId (bb_id body) i \<and> Blog_findById d i \<noteq> None then (d, Inl ServerError)
      else
        (let d' = d\<lparr>blogs := updateFirst (\<lambda>b. b_id b = i) (applyBlogBody body now) (blogs d)\<rparr>
         in (d', Inr (Blog_findById d' i))))"

section \<open>Blog routes (routes/blogs.js)\<close>

text \<open>JavaScript truthiness of a string field that may be absent.\<close>

definition truthy :: "jsString option \<Rightarrow> bool" where
  "truthy s = (case s of None \<Rightarrow> False | Some x \<Rightarrow> x \<noteq> [])"

text \<open>\<open>content.substring(0, 200) + '...'\<close>, for a body whose content is present.\<close>

definition withExcerpt :: "blogBody \<Rightarrow> blogBody" where
  "withExcerpt body =
     (case bb_content body of
        None \<Rightarrow> body
      | Some content \<Rightarrow> body\<lparr>bb_excerpt := Some (take 200 content @ js ''...'')\<rparr>)"

text \<open>
  GET /api/blogs/:id (lines 58-78): the post is loaded and \<open>commentCount\<close> and
  \<open>likeCount\<close> are populated, then \<open>incrementViews\<close> runs on the loaded document,
  which is the answer.
\<close>

definition getBlog :: "db \<Rightarrow> objectId \<Rightarrow> date \<Rightarrow> db \<times> (error + blogItem)" where
  "getBlog d i now =
     (case Blog_findById d i of
        None \<Rightarrow> (d, Inl NotFound)
      | Some blog \<Rightarrow>
          (case Blog_incrementViews d blog now of
             (d', blog') \<Rightarrow>
               (d', Inr \<lparr> bi_doc = blog', bi_commentCount = Blog_commentCount d blog,
                          bi_likeCount = Blog_likeCount d blog \<rparr>)))"

text \<open>A client fetching the same post once at each of the given times.\<close>

fun getBlogRepeatedly :: "db \<Rightarrow> objectId \<Rightarrow> date list \<Rightarrow> db" where
  "getBlogRepeatedly d i [] = d"
| "getBlogRepeatedly d i (now # later) = getBlogRepeatedly (fst (getBlog d i now)) i later"

text \<open>POST /api/blogs (lines 83-102).\<close>

definition postBlog ::
  "(blogBody \<Rightarrow> bool) \<Rightarrow> db \<Rightarrow> user \<Rightarrow> blogBody \<Rightarrow> objectId \<Rightarrow> date \<Rightarrow> db \<times> (error + blog)" where
  "postBlog validateBlog d req_user body newId now =
     (if \<not> validateBlog body then (d, Inl ValidationFailed)
      else
        (let body1 = body\<lparr>bb_author := Some (u_id req_user)\<rparr>;
             body2 = (if \<not> truthy (bb_excerpt body1) \<and> truthy (bb_content body1)
                      then withExcerpt body1 else body1)
         in Blog_create d body2 newId now))"

text \<open>PUT /api/blogs/:id (lines 107-124): protect, checkOwnership, validateBlog.\<close>

definition putBlog ::
  "(blogBody \<Rightarrow> bool) \<Rightarrow> db \<Rightarrow> user \<Rightarrow> objectId \<Rightarrow> blogBody \<Rightarrow> date
     \<Rightarrow> db \<times> (error + blog option)" where
  "putBlog validateBlog d req_user i body now =
     (case checkOwnership (Blog_findById d i) b_author req_user of
        Some e \<Rightarrow> (d, Inl e)
      | None \<Rightarrow>
          if \<not> validateBlog body then (d, Inl ValidationFailed)
          else
            (let body1 = (if truthy (bb_content body) \<and> \<not> truthy (bb_excerpt body)
                          then withExcerpt body else body)
             in Blog_findByIdAndUpdate d i body1 now))"

text \<open>DELETE /api/blogs/:id (lines 129-136): the hard delete.\<close>

definition deleteBlog :: "db \<Rightarrow> user \<Rightarrow> objectId \<Rightarrow> db \<times> (error + unit)" where
  "deleteBlog d req_user i =
     (case checkOwnership (Blog_findById d i) b_author req_user of
        Some e \<Rightarrow> (d, Inl e)
      | None \<Rightarrow> (d\<lparr>blogs := deleteFirst (\<lambda>b. b_id b = i) (blogs d)\<rparr>, Inr ()))"

text \<open>PUT /api/blogs/:id/like (lines 141-158).\<close>

definition likeBlog :: "db \<Rightarrow> user \<Rightarrow> objectId \<Rightarrow> date \<Rightarrow> db \<times> (error + blog)" where
  "likeBlog d req_user i now =
     (case Blog_findById d i of
        None \<Rightarrow> (d, Inl NotFound)
      | Some blog \<Rightarrow>
          (case Blog_toggleLike d blog (u_id req_user) now of (d', blog') \<Rightarrow> (d', Inr blog')))"

section \<open>Auth routes (routes/auth.js)\<close>

text \<open>
  POST /api/auth/register (lines 11-39). \<open>User.findOne({ email })\<close> is the first
  user whose stored email is the one of the body. \<open>User.create\<close> stores the
  password hashed (the function \<open>hash\<close> stands for the User model's hashing, which
  is not in the sources) and gives the role its default, user (the seed script
  names the role only to make an administrator); the handler passes name, email
  and password only. The signed token of the response is left out.
\<close>

definition User_findOne_email :: "db \<Rightarrow> jsString \<Rightarrow> user option" where
  "User_findOne_email d email = find (\<lambda>u. u_email u = email) (users d)"

definition register ::
  "(registerBody \<Rightarrow> bool) \<Rightarrow> (jsString \<Rightarrow> jsString) \<Rightarrow> db \<Rightarrow> registerBody \<Rightarrow> objectId
     \<Rightarrow> db \<times> (error + user)" where
  "register validateUserRegistration hash d body newId =
     (if \<not> validateUserRegistration body then (d, Inl ValidationFailed)
      else
        (case User_findOne_email d (rb_email body) of
           Some existingUser \<Rightarrow> (d, Inl DuplicateEmail)
         | None \<Rightarrow>
             (let doc = \<lparr> u_id = newId, u_name = rb_name body, u_email = rb_email body,
                          u_password = hash (rb_password body), u_role = RoleUser,
                          u_avatar = [], u_bio = [] \<rparr>
              in (d\<lparr>users := users d @ [doc]\<rparr>, Inr doc))))"

text \<open>DELETE /api/auth/account (lines 139-146): no cascade to blogs or comments.\<close>

definition deleteAccount :: "db \<Rightarrow> user \<Rightarrow> db \<times> (error + unit)" where
  "deleteAccount d req_user =
     (d\<lparr>users := deleteFirst (\<lambda>u. u_id u = u_id req_user) (users d)\<rparr>, Inr ())"

section \<open>Reading a response\<close>

definition dataOf :: "error + 'a listing \<Rightarrow> 'a list" where
  "dataOf r = (case r of Inl e \<Rightarrow> [] | Inr l \<Rightarrow> l_data l)"

definition totalOf :: "error + 'a listing \<Rightarrow> nat" where
  "totalOf r = (case r of Inl e \<Rightarrow> 0 | Inr l \<Rightarrow> l_total l)"

text \<open>
  A list response without the populated virtuals of its items: the listed
  documents with count, total, page and pages.
\<close>

definition documentsOf :: "error + commentItem listing \<Rightarrow> error + comment listing" where
  "documentsOf r =
     (case r of
        Inl e \<Rightarrow> Inl e
      | Inr l \<Rightarrow> Inr \<lparr> l_count = l_count l, l_total = l_total l, l_page = l_page l,
                        l_pages = l_pages l, l_data = map ci_doc (l_data l) \<rparr>)"

section \<open>A sample database\<close>

text \<open>
  Two users, an administrator, one post of the first user with a comment of the
  second user and a soft-deleted comment of the first user.
\<close>

definition alice :: user where
  "alice = \<lparr> u_id = 1, u_name = js ''Alice'', u_email = js ''alice@example.com'',
             u_password = js ''$2a$10$aaaa'', u_role = RoleUser, u_avatar = [], u_bio = [] \<rparr>"

definition bob :: user where
  "bob = \<lparr> u_id = 2, u_name = js ''Bob'', u_email = js ''bob@example.com'',
           u_password = js ''$2a$10$bbbb'', u_role = RoleUser, u_avatar = [], u_bio = [] \<rparr>"

definition carol :: user where
  "carol = \<lparr> u_id = 3, u_name = js ''Carol'', u_email = js ''carol@example.com'',
             u_password = js ''$2a$10$cccc'', u_role = RoleAdmin, u_avatar = [], u_bio = [] \<rparr>"

definition post1 :: blog where
  "post1 = \<lparr> b_id = 10, b_title = js ''Test Blog Post'',
             b_content = js ''This is a test blog post content, long enough to pass.'',
             b_excerpt = js ''This is a test...'', b_author = 1,
             b_tags = [js ''test'', js ''api''],
             b_featuredImage = [], b_status = Published, b_views = 0, b_likes = [],
             b_isPublished = True, b_createdAt = 1000, b_updatedAt = 1000 \<rparr>"

definition comment1 :: comment where
  "comment1 = \<lparr> c_id = 20, c_content = js ''first'', c_author = 2, c_blog = 10,
                c_parentComment = None, c_isEdited = False, c_editedAt = None, c_likes = [],
                c_isActive = True, c_createdAt = 2000, c_updatedAt = 2000 \<rparr>"

definition comment2 :: comment where
  "comment2 = \<lparr> c_id = 21, c_content = js ''withdrawn'', c_author = 1, c_blog = 10,
                c_parentComment = None, c_isEdited = False, c_editedAt = None, c_likes = [],
                c_isActive = False, c_createdAt = 3000, c_updatedAt = 4000 \<rparr>"

definition db0 :: db where
  "db0 = \<lparr> users = [alice, bob, carol], blogs = [post1], comments = [comment1, comment2] \<rparr>"

text \<open>The reply that the second user posts to the first comment at time 5000.\<close>

definition reply1 :: comment where
  "reply1 = \<lparr> c_id = 22, c_content = js ''hi'', c_author = 2, c_blog = 10,
              c_parentComment = Some 20, c_isEdited = False, c_editedAt = None, c_likes = [],
              c_isActive = True, c_createdAt = 5000, c_updatedAt = 5000 \<rparr>"


text \<open>The sample database with a soft-deleted reply to the first comment.\<close>

definition db_deleted_reply :: db where
  "db_deleted_reply = db0\<lparr>comments := comments db0 @ [reply1\<lparr>c_isActive := False\<rparr>]\<rparr>"

text \<open>Documents with likes: three distinct ids, two distinct ids, one id twice.\<close>

definition comment_liked :: comment where
  "comment_liked = comment1\<lparr>c_likes := [1, 2, 3]\<rparr>"

definition post_liked2 :: blog where
  "post_liked2 = post1\<lparr>b_likes := [3, 1]\<rparr>"

definition post_dup :: blog where
  "post_dup = post1\<lparr>b_likes := [2, 2]\<rparr>"

text \<open>The post after the second user liked it at time 7000.\<close>

definition post1_liked :: blog where
  "post1_liked = post1\<lparr>b_likes := [2], b_updatedAt := 7000\<rparr>"

text \<open>The database after the second user liked the post and then deleted the account.\<close>

definition db_orphan_like :: db where
  "db_orphan_like = fst (deleteAccount (fst (likeBlog db0 bob 10 7000)) bob)"

text \<open>The sample database with the view counter of the post at \<open>2 ^ 53\<close>.\<close>

definition post_maxviews :: blog where
  "post_maxviews = post1\<lparr>b_views := 2 ^ 53\<rparr>"

definition db_maxviews :: db where
  "db_maxviews = db0\<lparr>blogs := [post_maxviews]\<rparr>"

section \<open>Auxiliary facts\<close>

lemmas fixture_defs = alice_def bob_def carol_def post1_def comment1_def comment2_def db0_def

lemma indexOf_member: "(indexOf xs y > - 1) = (y \<in> set xs)"
  by (induction xs) (auto simp: Let_def)

lemma splice1_indexOf: "y \<in> set xs \<Longrightarrow> splice1 xs (indexOf xs y) = remove1 y xs"
proof (induction xs)
  case Nil
  then show ?case by simp
next
  case (Cons x xs)
  show ?case
  proof (cases "x = y")
    case True
    then show ?thesis by (simp add: splice1_def)
  next
    case False
    with Cons.prems have mem: "y \<in> set xs" by simp
    then have pos: "indexOf xs y > - 1" by (simp add: indexOf_member)
    have "nat (indexOf xs y + 1) = Suc (nat (indexOf xs y))"
      using pos by simp
    with False pos Cons.IH [OF mem] show ?thesis
      by (simp add: splice1_def Let_def)
  qed
qed

lemma toggleLikes_eq:
  "toggleLikes likes u = (if u \<in> set likes then remove1 u likes else likes @ [u])"
  by (simp add: toggleLikes_def Let_def indexOf_member splice1_indexOf)

lemma find_SomeD: "find P xs = Some x \<Longrightarrow> P x \<and> x \<in> set xs"
  by (auto simp: find_Some_iff)

lemma filter_removeAll_irrelevant: "\<not> P c \<Longrightarrow> filter P (removeAll c xs) = filter P xs"
  by (induction xs) auto

lemma set_sortDesc: "set (sortDesc cs) = set cs"
  by (simp add: sortDesc_def)

lemma set_sortAsc: "set (sortAsc cs) = set cs"
  by (simp add: sortAsc_def)

lemma dataOf_respondList_subset: "set (dataOf (respondList q docs)) \<subseteq> set docs"
  by (auto simp: dataOf_def respondList_def Let_def dest: in_set_takeD in_set_dropD)

lemma ci_doc_commentItemOf: "ci_doc \<circ> commentItemOf d w = id"
  by (rule ext) (simp add: commentItemOf_def)

lemma documentsOf_respondList:
  "documentsOf (respondList q (map (commentItemOf d w) cs)) = respondList q cs"
  by (simp add: documentsOf_def respondList_def Let_def take_map drop_map
        ci_doc_commentItemOf)

lemma dataOf_documents: "map ci_doc (dataOf r) = dataOf (documentsOf r)"
  by (simp add: dataOf_def documentsOf_def split: sum.splits)

lemma Blog_findById_comments_update:
  "Blog_findById (d\<lparr>comments := cs\<rparr>) i = Blog_findById d i"
  by (simp add: Blog_findById_def)

lemma commentItemOf_comments_update:
  "commentItemOf (d\<lparr>comments := cs\<rparr>) False = commentItemOf d False"
  by (rule ext)
     (simp add: commentItemOf_def Comment_likeCount_def populatedUserCount_def User_findById_def
        Let_def)

lemma getComments_documents:
  "documentsOf (getComments d blogId q) =
     (case Blog_findById d blogId of
        None \<Rightarrow> Inl NotFound
      | Some blog \<Rightarrow>
          respondList q
            (sortDesc (filter (\<lambda>c. c_blog c = blogId \<and> c_isActive c \<and> c_parentComment c = None)
                         (comments d))))"
  by (simp add: getComments_def documentsOf_respondList split: option.splits)
     (simp add: documentsOf_def)

lemma getComments_ignores_inactive:
  "\<not> c_isActive c \<Longrightarrow>
     documentsOf (getComments (d\<lparr>comments := removeAll c (comments d)\<rparr>) blogId q)
       = documentsOf (getComments d blogId q)"
  by (simp add: getComments_documents Blog_findById_comments_update filter_removeAll_irrelevant
        split: option.splits)

lemma getReplies_ignores_inactive:
  "\<not> c_isActive c \<Longrightarrow>
     getReplies (d\<lparr>comments := removeAll c (comments d)\<rparr>) commentId q = getReplies d commentId q"
  by (simp add: getReplies_def filter_removeAll_irrelevant commentItemOf_comments_update)

lemma getUserComments_ignores_inactive:
  "\<not> c_isActive c \<Longrightarrow>
     getUserComments (d\<lparr>comments := removeAll c (comments d)\<rparr>) userId q = getUserComments d userId q"
  by (simp add: getUserComments_def filter_removeAll_irrelevant commentItemOf_comments_update)

lemma getComments_data_active:
  "x \<in> set (map ci_doc (dataOf (getComments d blogId q))) \<Longrightarrow> c_isActive x"
proof -
  assume "x \<in> set (map ci_doc (dataOf (getComments d blogId q)))"
  then have mem: "x \<in> set (dataOf (documentsOf (getComments d blogId q)))"
    by (simp only: dataOf_documents)
  show ?thesis
  proof (cases "Blog_findById d blogId")
    case None
    with mem show ?thesis by (simp add: getComments_documents dataOf_def)
  next
    case (Some b)
    with mem dataOf_respondList_subset show ?thesis
      by (fastforce simp: getComments_documents set_sortDesc)
  qed
qed

lemma getReplies_data_active:
  "x \<in> set (map ci_doc (dataOf (getReplies d commentId q))) \<Longrightarrow> c_isActive x"
proof -
  assume "x \<in> set (map ci_doc (dataOf (getReplies d commentId q)))"
  then have "x \<in> set (dataOf (documentsOf (getReplies d commentId q)))"
    by (simp only: dataOf_documents)
  with dataOf_respondList_subset show ?thesis
    by (fastforce simp: getReplies_def documentsOf_respondList set_sortAsc)
qed

lemma getUserComments_data_active:
  "x \<in> set (map ci_doc (dataOf (getUserComments d userId q))) \<Longrightarrow> c_isActive x"
proof -
  assume "x \<in> set (map ci_doc (dataOf (getUserComments d userId q)))"
  then have "x \<in> set (dataOf (documentsOf (getUserComments d userId q)))"
    by (simp only: dataOf_documents)
  with dataOf_respondList_subset show ?thesis
    by (fastforce simp: getUserComments_def documentsOf_respondList set_sortDesc)
qed

lemma find_updateFirst_same:
  "find P xs = Some x \<Longrightarrow> P (f x) \<Longrightarrow> find P (updateFirst P f xs) = Some (f x)"
  by (induction xs) (auto split: if_splits)

lemma find_updateFirst_other:
  "(\<And>x. P x \<Longrightarrow> \<not> Q x \<and> \<not> Q (f x)) \<Longrightarrow> find Q (updateFirst P f xs) = find Q xs"
  by (induction xs) auto

lemma toDouble_exact: "\<bar>x\<bar> \<le> 2 ^ 53 \<Longrightarrow> toDouble x = x"
  by (simp add: toDouble_def Let_def)

lemma jsAdd_one_exact:
  "- (2 ^ 53) \<le> v \<Longrightarrow> v < 2 ^ 53 \<Longrightarrow> jsAdd v 1 = v + 1"
  unfolding jsAdd_def by (rule toDouble_exact) simp

lemma Blog_incrementViews_eq:
  assumes "- (2 ^ 53) \<le> b_views b" and "b_views b < 2 ^ 53"
  shows "Blog_incrementViews d b now =
     (d\<lparr>blogs := updateFirst (\<lambda>x. b_id x = b_id b)
                    (\<lambda>_. b\<lparr>b_views := b_views b + 1, b_updatedAt := now\<rparr>) (blogs d)\<rparr>,
      b\<lparr>b_views := b_views b + 1, b_updatedAt := now\<rparr>)"
  by (simp add: Blog_incrementViews_def Blog_save_def Let_def jsAdd_one_exact [OF assms])

lemma getBlog_found:
  assumes "Blog_findById d i = Some b" and "- (2 ^ 53) \<le> b_views b" and "b_views b < 2 ^ 53"
  shows "getBlog d i now =
     (d\<lparr>blogs := updateFirst (\<lambda>x. b_id x = i)
                    (\<lambda>_. b\<lparr>b_views := b_views b + 1, b_updatedAt := now\<rparr>) (blogs d)\<rparr>,
      Inr \<lparr> bi_doc = b\<lparr>b_views := b_views b + 1, b_updatedAt := now\<rparr>,
            bi_commentCount = Blog_commentCount d b, bi_likeCount = Blog_likeCount d b \<rparr>)"
proof -
  from assms(1) have "b_id b = i"
    by (auto simp: Blog_findById_def dest: find_SomeD)
  with assms(1) show ?thesis
    by (simp add: getBlog_def Blog_incrementViews_eq [OF assms(2,3)])
qed

lemma getBlog_stored:
  assumes "Blog_findById d i = Some b" and "- (2 ^ 53) \<le> b_views b" and "b_views b < 2 ^ 53"
  shows "Blog_findById (fst (getBlog d i now)) i
           = Some (b\<lparr>b_views := b_views b + 1, b_updatedAt := now\<rparr>)"
proof -
  from assms(1) have idb: "b_id b = i"
    by (auto simp: Blog_findById_def dest: find_SomeD)
  from assms(1) have "find (\<lambda>x. b_id x = i) (blogs d) = Some b"
    by (simp add: Blog_findById_def)
  from find_updateFirst_same [OF this, of "\<lambda>_. b\<lparr>b_views := b_views b + 1, b_updatedAt := now\<rparr>"] idb
  show ?thesis
    by (simp add: getBlog_found [OF assms] Blog_findById_def)
qed

lemma getBlog_others:
  assumes "Blog_findById d i = Some b" and "- (2 ^ 53) \<le> b_views b" and "b_views b < 2 ^ 53"
    and "j \<noteq> i"
  shows "Blog_findById (fst (getBlog d i now)) j = Blog_findById d j"
proof -
  from assms(1) have idb: "b_id b = i"
    by (auto simp: Blog_findById_def dest: find_SomeD)
  have "find (\<lambda>x. b_id x = j)
          (updateFirst (\<lambda>x. b_id x = i)
             (\<lambda>_. b\<lparr>b_views := b_views b + 1, b_updatedAt := now\<rparr>) (blogs d))
        = find (\<lambda>x. b_id x = j) (blogs d)"
    using assms(4) idb by (intro find_updateFirst_other) auto
  then show ?thesis
    by (simp add: getBlog_found [OF assms(1,2,3)] Blog_findById_def)
qed

lemma getBlogRepeatedly_stored:
  "Blog_findById d i = Some b \<Longrightarrow> - (2 ^ 53) \<le> b_views b
     \<Longrightarrow> b_views b + int (length ts) \<le> 2 ^ 53 \<Longrightarrow>
     Blog_findById (getBlogRepeatedly d i ts) i
       = Some (b\<lparr>b_views := b_views b + int (length ts), b_updatedAt := last (b_updatedAt b # ts)\<rparr>)"
proof (induction ts arbitrary: d b)
  case Nil
  then show ?case by simp
next
  case (Cons t ts)
  from Cons.prems have lt: "b_views b < 2 ^ 53" by simp
  have st: "Blog_findById (fst (getBlog d i t)) i
      = Some (b\<lparr>b_views := b_views b + 1, b_updatedAt := t\<rparr>)"
    using Cons.prems(1,2) lt by (rule getBlog_stored)
  have "Blog_findById (getBlogRepeatedly (fst (getBlog d i t)) i ts) i
          = Some ((b\<lparr>b_views := b_views b + 1, b_updatedAt := t\<rparr>)
                   \<lparr>b_views := b_views (b\<lparr>b_views := b_views b + 1, b_updatedAt := t\<rparr>) + int (length ts),
                    b_updatedAt := last (b_updatedAt (b\<lparr>b_views := b_views b + 1, b_updatedAt := t\<rparr>) # ts)\<rparr>)"
    using st Cons.prems(2,3) by (intro Cons.IH) simp_all
  then show ?case by (simp add: add.assoc)
qed

lemma Comment_toggleLike_likes:
  "c_likes (snd (Comment_toggleLike d c u now)) = toggleLikes (c_likes c) u"
  by (simp add: Comment_toggleLike_def Comment_save_def Comment_preSave_def Let_def)

lemma Blog_toggleLike_likes:
  "b_likes (snd (Blog_toggleLike d b u now)) = toggleLikes (b_likes b) u"
  by (simp add: Blog_toggleLike_def Blog_save_def Let_def)

lemma toggleLikes_set:
  "distinct likes \<Longrightarrow>
     set (toggleLikes likes u) = (if u \<in> set likes then set likes - {u} else insert u (set likes))"
  by (simp add: toggleLikes_eq)

lemma toggleLikes_distinct: "distinct likes \<Longrightarrow> distinct (toggleLikes likes u)"
  by (simp add: toggleLikes_eq)

lemma toggleLikes_twice_set:
  "distinct likes \<Longrightarrow> set (toggleLikes (toggleLikes likes u) u) = set likes"
  by (auto simp: toggleLikes_eq)

lemma toggleLikes_twice_absent:
  "u \<notin> set likes \<Longrightarrow> toggleLikes (toggleLikes likes u) u = likes"
  by (simp add: toggleLikes_eq remove1_append)

lemma toggleLikes_twice_present:
  "distinct likes \<Longrightarrow> u \<in> set likes \<Longrightarrow>
     toggleLikes (toggleLikes likes u) u = remove1 u likes @ [u]"
  by (simp add: toggleLikes_eq)

lemma populatedUserCount_all_present:
  assumes "set ids \<subseteq> set (map u_id (users d))"
  shows "populatedUserCount d ids = Count (length ids)"
proof -
  have "User_findById d i \<noteq> None" if "i \<in> set ids" for i
  proof -
    from that assms obtain u where "u \<in> set (users d)" "u_id u = i" by auto
    then show ?thesis by (auto simp: User_findById_def find_None_iff)
  qed
  then have "None \<notin> set (map (User_findById d) ids)" by force
  then show ?thesis by (simp add: populatedUserCount_def Let_def)
qed

lemma checkOwnership_found:
  "checkOwnership (Some r) author_of p =
     (if author_of r = u_id p \<or> u_role p = RoleAdmin then None else Some Forbidden)"
  by (simp add: checkOwnership_def)

section \<open>Soft-deleted comments in listings and counts\<close>

text \<open>
  Claim C1, as amended. A comment whose \<open>isActive\<close> flag is false is not among the
  comments of any page of the top-level listing of a blog, of the reply listing
  of a comment and of the per-user listing; the listed comments, count, total,
  page and pages of the top-level listing, and the whole response of the reply
  listing and of the per-user listing, are the ones the database without that
  comment gives. The admin listing \<open>Comment.find()\<close> has no filter: for an
  administrator, a page as long as the collection holds the inactive comment,
  and the total is the size of the collection.
\<close>

theorem inactive_comment_excluded:
  assumes "\<not> c_isActive c"
  shows "c \<notin> set (map ci_doc (dataOf (getComments d blogId q)))
       \<and> documentsOf (getComments (d\<lparr>comments := removeAll c (comments d)\<rparr>) blogId q)
            = documentsOf (getComments d blogId q)
       \<and> c \<notin> set (map ci_doc (dataOf (getReplies d commentId q)))
       \<and> getReplies (d\<lparr>comments := removeAll c (comments d)\<rparr>) commentId q
            = getReplies d commentId q
       \<and> c \<notin> set (map ci_doc (dataOf (getUserComments d userId q)))
       \<and> getUserComments (d\<lparr>comments := removeAll c (comments d)\<rparr>) userId q
            = getUserComments d userId q
       \<and> (authorize RoleAdmin req_user \<and> c \<in> set (comments d) \<longrightarrow>
            c \<in> set (map ci_doc (dataOf (getAllComments d req_user
                   \<lparr>q_page = None, q_limit = Some (int (length (comments d)))\<rparr>)))
            \<and> totalOf (getAllComments d req_user
                   \<lparr>q_page = None, q_limit = Some (int (length (comments d)))\<rparr>)
                = length (comments d))"
proof -
  have a: "c \<notin> set (map ci_doc (dataOf (getComments d blogId q)))"
    using assms getComments_data_active by blast
  have b: "c \<notin> set (map ci_doc (dataOf (getReplies d commentId q)))"
    using assms getReplies_data_active by blast
  have u: "c \<notin> set (map ci_doc (dataOf (getUserComments d userId q)))"
    using assms getUserComments_data_active by blast
  have adm: "authorize RoleAdmin req_user \<and> c \<in> set (comments d) \<longrightarrow>
            c \<in> set (map ci_doc (dataOf (getAllComments d req_user
                   \<lparr>q_page = None, q_limit = Some (int (length (comments d)))\<rparr>)))
            \<and> totalOf (getAllComments d req_user
                   \<lparr>q_page = None, q_limit = Some (int (length (comments d)))\<rparr>)
                = length (comments d)"
    by (auto simp: getAllComments_def respondList_def orDefault_def Let_def sortDesc_def
          dataOf_def totalOf_def ci_doc_commentItemOf)
  from a b u adm assms show ?thesis
    by (simp only: getComments_ignores_inactive getReplies_ignores_inactive
          getUserComments_ignores_inactive simp_thms)
qed

text \<open>The theorem at the soft-deleted comment of the sample database.\<close>

theorem inactive_comment_excluded_witness:
  "\<not> c_isActive comment2 \<and> comment2 \<in> set (comments db0) \<and> authorize RoleAdmin carol
   \<and> comment2 \<notin> set (map ci_doc (dataOf (getComments db0 10 \<lparr>q_page = None, q_limit = None\<rparr>)))
   \<and> totalOf (getComments db0 10 \<lparr>q_page = None, q_limit = None\<rparr>) = 1
   \<and> comment2 \<in> set (map ci_doc
                        (dataOf (getAllComments db0 carol \<lparr>q_page = None, q_limit = Some 2\<rparr>)))"
proof -
  have h: "\<not> c_isActive comment2" by (simp add: comment2_def)
  have len: "int (length (comments db0)) = 2" by (simp add: db0_def)
  have adm: "authorize RoleAdmin carol \<and> comment2 \<in> set (comments db0)"
    by (simp add: authorize_def carol_def db0_def)
  have tot: "totalOf (getComments db0 10 \<lparr>q_page = None, q_limit = None\<rparr>) = 1"
    by (simp add: totalOf_def getComments_def Blog_findById_def respondList_def orDefault_def
          sortDesc_def Let_def fixture_defs)
  from inactive_comment_excluded [OF h, where d = db0 and blogId = 10 and req_user = carol
       and q = "\<lparr>q_page = None, q_limit = None\<rparr>"]
  show ?thesis using h adm tot by (simp add: len)
qed

text \<open>
  Claim C1 as stated fails: the admin listing returns the soft-deleted comment
  and counts it in its total; the virtual \<open>commentCount\<close> of the post counts it
  (2 with it, 1 without it); and the \<open>repliesCount\<close> that the top-level listing
  shows for the first comment counts a soft-deleted reply.
\<close>

theorem inactive_comment_listed_counterexample:
  "\<not> c_isActive comment2
   \<and> comment2 \<in> set (map ci_doc
                        (dataOf (getAllComments db0 carol \<lparr>q_page = None, q_limit = None\<rparr>)))
   \<and> totalOf (getAllComments db0 carol \<lparr>q_page = None, q_limit = None\<rparr>) = 2
   \<and> Blog_commentCount db0 post1 = 2
   \<and> Blog_commentCount (db0\<lparr>comments := removeAll comment2 (comments db0)\<rparr>) post1 = 1
   \<and> map ci_repliesCount (dataOf (getComments db_deleted_reply 10 \<lparr>q_page = None, q_limit = None\<rparr>))
       = [Some 1]"
  by (simp add: getAllComments_def getComments_def authorize_def respondList_def orDefault_def
        sortDesc_def Let_def dataOf_def totalOf_def Blog_commentCount_def Blog_findById_def
        commentItemOf_def Comment_repliesCount_def db_deleted_reply_def reply1_def fixture_defs)

section \<open>Replies\<close>

text \<open>
  Claim C2. Whenever the reply endpoint succeeds, the parent comment exists, the
  created comment has the parent's blog and the parent's id as \<open>parentComment\<close>,
  whatever the request body holds (a blog or parentComment of the caller is
  overwritten), and the created comment is appended to the collection.
\<close>

theorem reply_inherits_parent_blog:
  assumes "postReply validateComment d req_user commentId body newId now = (d', Inr reply)"
  shows "\<exists>parent. Comment_findById d commentId = Some parent \<and> c_id parent = commentId
           \<and> c_blog reply = c_blog parent \<and> c_parentComment reply = Some commentId
           \<and> comments d' = comments d @ [reply]"
proof (cases "Comment_findById d commentId")
  case None
  with assms show ?thesis
    by (simp add: postReply_def split: if_splits)
next
  case (Some parent)
  then have idp: "c_id parent = commentId"
    by (auto simp: Comment_findById_def dest: find_SomeD)
  from assms Some have
    "Comment_create d (body\<lparr>cb_author := Some (u_id req_user),
        cb_blog := Some (c_blog parent), cb_parentComment := Some (Some commentId)\<rparr>) newId now
      = (d', Inr reply)"
    by (simp add: postReply_def split: if_splits)
  then have "c_blog reply = c_blog parent \<and> c_parentComment reply = Some commentId
      \<and> comments d' = comments d @ [reply]"
    by (auto simp: Comment_create_def Comment_preSave_def Let_def split: option.splits if_splits)
  with Some idp show ?thesis by simp
qed

text \<open>
  A reply to the first comment of the sample database whose body names blog 99:
  the stored reply is on blog 10, the parent's blog.
\<close>

theorem reply_inherits_parent_blog_witness:
  "postReply validateComment_model db0 bob 20
      (emptyCommentBody\<lparr>cb_content := Some (js ''hi''), cb_blog := Some 99\<rparr>) 22 5000
     = (db0\<lparr>comments := comments db0 @ [reply1]\<rparr>, Inr reply1)
   \<and> Comment_findById db0 20 = Some comment1
   \<and> c_blog reply1 = c_blog comment1 \<and> c_parentComment reply1 = Some 20"
proof -
  have run: "postReply validateComment_model db0 bob 20
      (emptyCommentBody\<lparr>cb_content := Some (js ''hi''), cb_blog := Some 99\<rparr>) 22 5000
     = (db0\<lparr>comments := comments db0 @ [reply1]\<rparr>, Inr reply1)"
    by (simp add: postReply_def validateComment_model_def emptyCommentBody_def trim_def
          isWhiteSpace_def js_def Comment_findById_def Comment_create_def Comment_preSave_def
          Let_def reply1_def fixture_defs)
  from reply_inherits_parent_blog [OF run] run show ?thesis
    by (auto simp: Comment_findById_def db0_def comment1_def)
qed

section \<open>Ownership is not immutable under the update endpoints\<close>

text \<open>
  Claim C3 does not hold of the code. The create handlers overwrite
  \<open>req.body.author\<close> with the caller's id, but both update handlers pass
  \<open>req.body\<close> to \<open>findByIdAndUpdate\<close> as it is, so a body with an \<open>author\<close> field
  rewrites the owner. Here the second user hands the first comment to the first
  user, and the first user hands the post to the second user.
\<close>

theorem update_changes_author:
  "c_author comment1 = u_id bob
   \<and> map_option c_author
        (Comment_findById
           (fst (putComment validateComment_model db0 bob 20
                   (emptyCommentBody\<lparr>cb_content := Some (js ''edited''), cb_author := Some 1\<rparr>)
                   6000))
           20) = Some (u_id alice)
   \<and> b_author post1 = u_id alice
   \<and> map_option b_author
        (Blog_findById
           (fst (putBlog validateBlog_model db0 alice 10
                   \<lparr> bb_id = None, bb_title = Some (js ''Updated Test Blog Post''),
                     bb_content = Some (b_content post1),
                     bb_excerpt = None, bb_author = Some 2, bb_tags = None,
                     bb_featuredImage = None, bb_status = None, bb_views = None,
                     bb_likes = None, bb_isPublished = None, bb_createdAt = None \<rparr> 6000))
           10) = Some (u_id bob)"
  by (simp add: putComment_def putBlog_def checkOwnership_def validateComment_model_def
        validateBlog_model_def Comment_findByIdAndUpdate_def Blog_findByIdAndUpdate_def
        commentUpdateValid_def blogUpdateValid_def applyCommentBody_def applyBlogBody_def
        changesId_def truthy_def withExcerpt_def emptyCommentBody_def trim_def isWhiteSpace_def
        js_def Comment_findById_def Blog_findById_def Let_def
        db0_def post1_def comment1_def comment2_def alice_def bob_def)

section \<open>The edit mark\<close>

text \<open>
  Claim C4 does not hold of the code. The save hook that sets \<open>isEdited\<close> and
  \<open>editedAt\<close> runs on \<open>save()\<close> only; the update endpoint changes the content
  with \<open>findByIdAndUpdate\<close>, which runs no save hook. After the owner's update of
  the first comment the content is new, \<open>isEdited\<close> is still false and \<open>editedAt\<close>
  is still unset, although the hook on the same change would have set the mark.
\<close>

theorem update_leaves_isEdited:
  "Comment_findById db0 20 = Some comment1
   \<and> Comment_findById
        (fst (putComment validateComment_model db0 bob 20
                (emptyCommentBody\<lparr>cb_content := Some (js ''edited'')\<rparr>) 6000)) 20
      = Some (comment1\<lparr>c_content := js ''edited'', c_updatedAt := 6000\<rparr>)
   \<and> c_isEdited (comment1\<lparr>c_content := js ''edited'', c_updatedAt := 6000\<rparr>) = False
   \<and> c_editedAt (comment1\<lparr>c_content := js ''edited'', c_updatedAt := 6000\<rparr>) = None
   \<and> c_isEdited (Comment_preSave True False 6000 (comment1\<lparr>c_content := js ''edited''\<rparr>)) = True"
  by (simp add: putComment_def checkOwnership_def validateComment_model_def
        Comment_findByIdAndUpdate_def commentUpdateValid_def applyCommentBody_def changesId_def
        Comment_preSave_def emptyCommentBody_def trim_def isWhiteSpace_def js_def
        Comment_findById_def Let_def db0_def comment1_def comment2_def bob_def)

text \<open>
  The same endpoint also takes \<open>isEdited\<close> from the body: on a comment that is
  marked as edited, an update whose body holds \<open>isEdited: false\<close> clears the mark.
\<close>

lemma update_resets_isEdited:
  "map_option c_isEdited
     (Comment_findById
        (fst (putComment validateComment_model
                (db0\<lparr>comments := [comment1\<lparr>c_isEdited := True, c_editedAt := Some 5000\<rparr>]\<rparr>) bob 20
                (emptyCommentBody\<lparr>cb_content := Some (js ''edited again''),
                                  cb_isEdited := Some False\<rparr>)
                6000)) 20)
   = Some False"
  by (simp add: putComment_def checkOwnership_def validateComment_model_def
        Comment_findByIdAndUpdate_def commentUpdateValid_def applyCommentBody_def changesId_def
        emptyCommentBody_def trim_def isWhiteSpace_def js_def
        Comment_findById_def Let_def db0_def comment1_def bob_def)

section \<open>The ownership check of the update and delete endpoints\<close>

text \<open>
  Claim C5. For every principal and every existing comment and post, the update
  and delete endpoints pass the ownership check exactly when the principal is
  the author or an administrator: then the update reaches its validator and the
  database update and the delete succeeds; otherwise each of the four answers
  Forbidden and leaves the database as it is.
\<close>

theorem ownership_check:
  assumes "Comment_findById d i = Some c" and "Blog_findById d j = Some b"
  shows "(if c_author c = u_id p \<or> u_role p = RoleAdmin
          then putComment validateComment d p i cbody now
                 = (if validateComment cbody then Comment_findByIdAndUpdate d i cbody True now
                    else (d, Inl ValidationFailed))
               \<and> snd (putComment validateComment d p i cbody now) \<noteq> Inl Forbidden
               \<and> snd (deleteComment d p i now) = Inr ()
          else putComment validateComment d p i cbody now = (d, Inl Forbidden)
               \<and> deleteComment d p i now = (d, Inl Forbidden))
       \<and> (if b_author b = u_id p \<or> u_role p = RoleAdmin
          then snd (putBlog validateBlog d p j bbody now) \<noteq> Inl Forbidden
               \<and> deleteBlog d p j = (d\<lparr>blogs := deleteFirst (\<lambda>x. b_id x = j) (blogs d)\<rparr>, Inr ())
          else putBlog validateBlog d p j bbody now = (d, Inl Forbidden)
               \<and> deleteBlog d p j = (d, Inl Forbidden))"
proof -
  have pc: "putComment validateComment d p i cbody now =
      (if c_author c = u_id p \<or> u_role p = RoleAdmin
       then (if validateComment cbody then Comment_findByIdAndUpdate d i cbody True now
             else (d, Inl ValidationFailed))
       else (d, Inl Forbidden))"
    by (simp add: putComment_def assms(1) checkOwnership_found)
  have upd: "snd (Comment_findByIdAndUpdate d i cbody True now) \<noteq> Inl Forbidden"
    by (simp add: Comment_findByIdAndUpdate_def Let_def)
  have dc: "deleteComment d p i now =
      (if c_author c = u_id p \<or> u_role p = RoleAdmin
       then (d\<lparr>comments := updateFirst (\<lambda>x. c_id x = i)
                 (applyCommentBody (emptyCommentBody\<lparr>cb_isActive := Some False\<rparr>) now)
                 (comments d)\<rparr>, Inr ())
       else (d, Inl Forbidden))"
    by (simp add: deleteComment_def assms(1) checkOwnership_found Comment_findByIdAndUpdate_def
          changesId_def emptyCommentBody_def Let_def)
  have pb: "putBlog validateBlog d p j bbody now =
      (if b_author b = u_id p \<or> u_role p = RoleAdmin
       then (if validateBlog bbody
             then Blog_findByIdAndUpdate d j
                    (if truthy (bb_content bbody) \<and> \<not> truthy (bb_excerpt bbody)
                     then withExcerpt bbody else bbody) now
             else (d, Inl ValidationFailed))
       else (d, Inl Forbidden))"
    by (simp add: putBlog_def assms(2) checkOwnership_found Let_def)
  have updb: "snd (Blog_findByIdAndUpdate d j bb now) \<noteq> Inl Forbidden" for bb
    by (simp add: Blog_findByIdAndUpdate_def Let_def)
  have db: "deleteBlog d p j =
      (if b_author b = u_id p \<or> u_role p = RoleAdmin
       then (d\<lparr>blogs := deleteFirst (\<lambda>x. b_id x = j) (blogs d)\<rparr>, Inr ())
       else (d, Inl Forbidden))"
    by (simp add: deleteBlog_def assms(2) checkOwnership_found)
  show ?thesis
    using upd updb by (simp add: pc dc pb db)
qed

text \<open>
  The first user is not the author of the first comment and is no administrator,
  and is the author of the post.
\<close>

theorem ownership_check_witness:
  "Comment_findById db0 20 = Some comment1 \<and> Blog_findById db0 10 = Some post1
   \<and> deleteComment db0 alice 20 6000 = (db0, Inl Forbidden)
   \<and> putComment validateComment_model db0 alice 20
        (emptyCommentBody\<lparr>cb_content := Some (js ''mine now'')\<rparr>) 6000 = (db0, Inl Forbidden)
   \<and> deleteBlog db0 alice 10 = (db0\<lparr>blogs := []\<rparr>, Inr ())"
proof -
  have hc: "Comment_findById db0 20 = Some comment1"
    by (simp add: Comment_findById_def db0_def comment1_def)
  have hb: "Blog_findById db0 10 = Some post1"
    by (simp add: Blog_findById_def db0_def post1_def)
  have del: "deleteFirst (\<lambda>x. b_id x = 10) (blogs db0) = []"
    by (simp add: db0_def post1_def)
  from ownership_check [OF hc hb, of alice validateComment_model
      "emptyCommentBody\<lparr>cb_content := Some (js ''mine now'')\<rparr>" 6000] hc hb
  show ?thesis
    by (simp add: alice_def comment1_def post1_def del)
qed

section \<open>The like toggle\<close>

text \<open>
  Claim C6, as amended. For every comment and every post whose \<open>likes\<close> array
  holds no id twice, \<open>toggleLike\<close> removes the user id from the set of likes if it
  is there and adds it otherwise, the array stays free of duplicates, and a
  second \<open>toggleLike\<close> with the same id gives back the original set of likes:
  the very same array when the id was absent at first, and the array with the
  id moved to its end when the id was present.
\<close>

theorem toggleLike_involution:
  assumes "distinct (c_likes c)" and "distinct (b_likes b)"
  shows "set (c_likes (snd (Comment_toggleLike d c u t1)))
           = (if u \<in> set (c_likes c) then set (c_likes c) - {u} else insert u (set (c_likes c)))
       \<and> distinct (c_likes (snd (Comment_toggleLike d c u t1)))
       \<and> set (c_likes (snd (Comment_toggleLike (fst (Comment_toggleLike d c u t1))
                              (snd (Comment_toggleLike d c u t1)) u t2)))
           = set (c_likes c)
       \<and> (u \<notin> set (c_likes c) \<longrightarrow>
            c_likes (snd (Comment_toggleLike (fst (Comment_toggleLike d c u t1))
                            (snd (Comment_toggleLike d c u t1)) u t2)) = c_likes c)
       \<and> (u \<in> set (c_likes c) \<longrightarrow>
            c_likes (snd (Comment_toggleLike (fst (Comment_toggleLike d c u t1))
                            (snd (Comment_toggleLike d c u t1)) u t2))
              = remove1 u (c_likes c) @ [u])
       \<and> set (b_likes (snd (Blog_toggleLike d b u t1)))
           = (if u \<in> set (b_likes b) then set (b_likes b) - {u} else insert u (set (b_likes b)))
       \<and> distinct (b_likes (snd (Blog_toggleLike d b u t1)))
       \<and> set (b_likes (snd (Blog_toggleLike (fst (Blog_toggleLike d b u t1))
                              (snd (Blog_toggleLike d b u t1)) u t2)))
           = set (b_likes b)
       \<and> (u \<notin> set (b_likes b) \<longrightarrow>
            b_likes (snd (Blog_toggleLike (fst (Blog_toggleLike d b u t1))
                            (snd (Blog_toggleLike d b u t1)) u t2)) = b_likes b)
       \<and> (u \<in> set (b_likes b) \<longrightarrow>
            b_likes (snd (Blog_toggleLike (fst (Blog_toggleLike d b u t1))
                            (snd (Blog_toggleLike d b u t1)) u t2))
              = remove1 u (b_likes b) @ [u])"
proof -
  have c1: "set (toggleLikes (c_likes c) u)
      = (if u \<in> set (c_likes c) then set (c_likes c) - {u} else insert u (set (c_likes c)))"
    using assms(1) by (rule toggleLikes_set)
  have c2: "set (toggleLikes (toggleLikes (c_likes c) u) u) = set (c_likes c)"
    using assms(1) by (rule toggleLikes_twice_set)
  have c3: "distinct (toggleLikes (c_likes c) u)"
    using assms(1) by (rule toggleLikes_distinct)
  have c4: "u \<notin> set (c_likes c) \<longrightarrow> toggleLikes (toggleLikes (c_likes c) u) u = c_likes c"
    by (simp add: toggleLikes_twice_absent)
  have c5: "u \<in> set (c_likes c) \<longrightarrow>
      toggleLikes (toggleLikes (c_likes c) u) u = remove1 u (c_likes c) @ [u]"
    using assms(1) by (simp add: toggleLikes_twice_present)
  have b1: "set (toggleLikes (b_likes b) u)
      = (if u \<in> set (b_likes b) then set (b_likes b) - {u} else insert u (set (b_likes b)))"
    using assms(2) by (rule toggleLikes_set)
  have b2: "set (toggleLikes (toggleLikes (b_likes b) u) u) = set (b_likes b)"
    using assms(2) by (rule toggleLikes_twice_set)
  have b3: "distinct (toggleLikes (b_likes b) u)"
    using assms(2) by (rule toggleLikes_distinct)
  have b4: "u \<notin> set (b_likes b) \<longrightarrow> toggleLikes (toggleLikes (b_likes b) u) u = b_likes b"
    by (simp add: toggleLikes_twice_absent)
  have b5: "u \<in> set (b_likes b) \<longrightarrow>
      toggleLikes (toggleLikes (b_likes b) u) u = remove1 u (b_likes b) @ [u]"
    using assms(2) by (simp add: toggleLikes_twice_present)
  from c1 c2 c3 c4 c5 b1 b2 b3 b4 b5 show ?thesis
    by (simp only: Comment_toggleLike_likes Blog_toggleLike_likes simp_thms)
qed

text \<open>
  The theorem at a comment liked by users 1, 2 and 3, toggled by user 2 (the
  id is removed from the middle and comes back at the end), and at a post liked
  by users 3 and 1, toggled by user 2 (the id is added and removed again).
\<close>

theorem toggleLike_involution_witness:
  "distinct (c_likes comment_liked) \<and> distinct (b_likes post_liked2)
   \<and> c_likes comment_liked = [1, 2, 3]
   \<and> c_likes (snd (Comment_toggleLike db0 comment_liked 2 7000)) = [1, 3]
   \<and> c_likes (snd (Comment_toggleLike (fst (Comment_toggleLike db0 comment_liked 2 7000))
                      (snd (Comment_toggleLike db0 comment_liked 2 7000)) 2 7001)) = [1, 3, 2]
   \<and> b_likes post_liked2 = [3, 1]
   \<and> b_likes (snd (Blog_toggleLike db0 post_liked2 2 7000)) = [3, 1, 2]
   \<and> b_likes (snd (Blog_toggleLike (fst (Blog_toggleLike db0 post_liked2 2 7000))
                      (snd (Blog_toggleLike db0 post_liked2 2 7000)) 2 7001)) = [3, 1]"
proof -
  have lc: "c_likes comment_liked = [1, 2, 3]" by (simp add: comment_liked_def)
  have lb: "b_likes post_liked2 = [3, 1]" by (simp add: post_liked2_def)
  have hc: "distinct (c_likes comment_liked)" by (simp add: lc)
  have hb: "distinct (b_likes post_liked2)" by (simp add: lb)
  have c1: "c_likes (snd (Comment_toggleLike db0 comment_liked 2 7000)) = [1, 3]"
    by (simp add: Comment_toggleLike_likes toggleLikes_eq lc)
  have b1: "b_likes (snd (Blog_toggleLike db0 post_liked2 2 7000)) = [3, 1, 2]"
    by (simp add: Blog_toggleLike_likes toggleLikes_eq lb)
  from toggleLike_involution [OF hc hb, of db0 2 7000 7001] hc hb c1 b1
  show ?thesis by (simp add: lc lb)
qed

text \<open>
  Claim C6 as stated fails on an array with a repeated id: \<open>splice\<close> removes the
  first occurrence only, so the id is still liked after the first toggle, and
  the second toggle empties the array.
\<close>

theorem toggleLike_duplicate_counterexample:
  "b_likes post_dup = [2, 2]
   \<and> b_likes (snd (Blog_toggleLike db0 post_dup 2 7000)) = [2]
   \<and> b_likes (snd (Blog_toggleLike (fst (Blog_toggleLike db0 post_dup 2 7000))
                      (snd (Blog_toggleLike db0 post_dup 2 7000)) 2 7001)) = []"
  by (simp add: Blog_toggleLike_def Blog_save_def Let_def toggleLikes_def splice1_def post_dup_def)

text \<open>
  Such an array is stored by the create endpoint, which takes \<open>likes\<close> from the
  request body.
\<close>

lemma duplicate_likes_reachable:
  "map_option b_likes
     (Blog_findById
        (fst (postBlog validateBlog_model db0 bob
               \<lparr> bb_id = None, bb_title = Some (js ''Second post''),
                 bb_content = Some (js ''Fifty characters of content are needed for a post.''),
                 bb_excerpt = None, bb_author = None, bb_tags = None, bb_featuredImage = None,
                 bb_status = None, bb_views = None, bb_likes = Some [2, 2],
                 bb_isPublished = None, bb_createdAt = None \<rparr> 11 8000)) 11)
   = Some [2, 2]"
  by (simp add: postBlog_def validateBlog_model_def truthy_def withExcerpt_def Blog_create_def
        Blog_findById_def trim_def isWhiteSpace_def js_def Let_def db0_def post1_def bob_def)

section \<open>Registration\<close>

text \<open>
  Claim C7. When a user with the email of the request exists, registration
  leaves the database as it is, so the existing account keeps its name, its
  password hash and its role, and the answer is DuplicateEmail for every body the
  validator admits (ValidationFailed for the others).
\<close>

theorem register_duplicate_email:
  assumes "existing \<in> set (users d)" and "u_email existing = rb_email body"
  shows "register validateUserRegistration hash d body newId =
           (d, Inl (if validateUserRegistration body then DuplicateEmail else ValidationFailed))"
proof -
  from assms have "find (\<lambda>u. u_email u = rb_email body) (users d) \<noteq> None"
    by (auto simp: find_None_iff)
  then obtain x where "User_findOne_email d (rb_email body) = Some x"
    by (auto simp: User_findOne_email_def)
  then show ?thesis by (simp add: register_def)
qed

text \<open>A second registration with the email of the first sample user.\<close>

theorem register_duplicate_email_witness:
  "alice \<in> set (users db0)
   \<and> register validateUserRegistration_model (\<lambda>p. js ''$2a$10$'' @ p) db0
        \<lparr>rb_name = js ''Mallory'', rb_email = js ''alice@example.com'',
          rb_password = js ''Secret123''\<rparr> 4
      = (db0, Inl DuplicateEmail)"
proof -
  have mem: "alice \<in> set (users db0)" by (simp add: db0_def)
  have em: "u_email alice = rb_email
        \<lparr>rb_name = js ''Mallory'', rb_email = js ''alice@example.com'',
          rb_password = js ''Secret123''\<rparr>"
    by (simp add: alice_def)
  from register_duplicate_email [OF mem em, of validateUserRegistration_model
      "\<lambda>p. js ''$2a$10$'' @ p" 4] mem
  show ?thesis by (simp add: validateUserRegistration_model_def js_def)
qed

section \<open>The view counter\<close>

text \<open>
  Claim C8, as amended. For an existing post whose \<open>views\<close> is an integer from
  \<open>- 2 ^ 53\<close> to below \<open>2 ^ 53\<close>, a fetch answers with the post, adds exactly 1
  to its \<open>views\<close> and stores it; the handler takes no caller identity. Of the
  post's other fields only \<open>updatedAt\<close> changes, which \<open>save()\<close> stamps under
  \<open>timestamps: true\<close>; the other posts, the users and the comments stay as they
  are. Five fetches add exactly 5, as long as the counter stays within
  \<open>2 ^ 53\<close>.
\<close>

theorem getBlog_counts_view:
  assumes "Blog_findById d i = Some b" and "- (2 ^ 53) \<le> b_views b" and "b_views b < 2 ^ 53"
  shows "snd (getBlog d i now)
           = Inr \<lparr> bi_doc = b\<lparr>b_views := b_views b + 1, b_updatedAt := now\<rparr>,
                   bi_commentCount = Blog_commentCount d b, bi_likeCount = Blog_likeCount d b \<rparr>
       \<and> Blog_findById (fst (getBlog d i now)) i
            = Some (b\<lparr>b_views := b_views b + 1, b_updatedAt := now\<rparr>)
       \<and> (\<forall>j. j \<noteq> i \<longrightarrow> Blog_findById (fst (getBlog d i now)) j = Blog_findById d j)
       \<and> users (fst (getBlog d i now)) = users d
       \<and> comments (fst (getBlog d i now)) = comments d
       \<and> (b_views b + 5 \<le> 2 ^ 53 \<longrightarrow>
            Blog_findById (getBlogRepeatedly d i [t1, t2, t3, t4, t5]) i
              = Some (b\<lparr>b_views := b_views b + 5, b_updatedAt := t5\<rparr>))"
proof -
  have five: "b_views b + 5 \<le> 2 ^ 53 \<longrightarrow>
      Blog_findById (getBlogRepeatedly d i [t1, t2, t3, t4, t5]) i
        = Some (b\<lparr>b_views := b_views b + 5, b_updatedAt := t5\<rparr>)"
    using getBlogRepeatedly_stored [OF assms(1,2), of "[t1, t2, t3, t4, t5]"] by simp
  have others: "\<forall>j. j \<noteq> i \<longrightarrow> Blog_findById (fst (getBlog d i now)) j = Blog_findById d j"
    using getBlog_others [OF assms] by blast
  show ?thesis
    using five others getBlog_stored [OF assms, of now]
    by (simp add: getBlog_found [OF assms])
qed

text \<open>The theorem at the post of the sample database.\<close>

theorem getBlog_counts_view_witness:
  "Blog_findById db0 10 = Some post1 \<and> b_views post1 = 0
   \<and> Blog_findById (fst (getBlog db0 10 9000)) 10
        = Some (post1\<lparr>b_views := 1, b_updatedAt := 9000\<rparr>)
   \<and> Blog_findById (getBlogRepeatedly db0 10 [9001, 9002, 9003, 9004, 9005]) 10
        = Some (post1\<lparr>b_views := 5, b_updatedAt := 9005\<rparr>)"
proof -
  have h: "Blog_findById db0 10 = Some post1"
    by (simp add: Blog_findById_def db0_def post1_def)
  have v: "b_views post1 = 0" by (simp add: post1_def)
  have lo: "- (2 ^ 53) \<le> b_views post1" by (simp add: v)
  have hi: "b_views post1 < 2 ^ 53" by (simp add: v)
  from getBlog_counts_view [OF h lo hi, of 9000 9001 9002 9003 9004 9005] h v
  show ?thesis by simp
qed

text \<open>
  Claim C8 as stated fails in two places. A fetch of the sample post changes
  \<open>updatedAt\<close> as well. And on a post whose counter is \<open>2 ^ 53\<close> the sum
  \<open>views + 1\<close> rounds back to \<open>2 ^ 53\<close>: no path is modified, \<open>save()\<close> writes
  nothing, and the database after the fetch is the database before it.
\<close>

theorem getBlog_views_counterexample:
  "Blog_findById db0 10 = Some post1 \<and> b_updatedAt post1 = 1000
   \<and> Blog_findById (fst (getBlog db0 10 9000)) 10 = Some (post1\<lparr>b_views := 1, b_updatedAt := 9000\<rparr>)
   \<and> b_updatedAt (post1\<lparr>b_views := 1, b_updatedAt := 9000\<rparr>) \<noteq> b_updatedAt post1
   \<and> Blog_findById db_maxviews 10 = Some post_maxviews \<and> b_views post_maxviews = 2 ^ 53
   \<and> fst (getBlog db_maxviews 10 9000) = db_maxviews"
  by (simp add: getBlog_def Blog_incrementViews_def Blog_save_def Blog_findById_def Let_def
        jsAdd_def toDouble_def bitLength.simps db_maxviews_def post_maxviews_def db0_def post1_def)

section \<open>The like count\<close>

text \<open>
  Claim C9 does not hold of the code. The virtual \<open>likeCount\<close> is a populated count
  over the User collection, not the size of \<open>likes\<close>. After the second user has
  liked the post and deleted the account, the post still has one like, but the
  single-post response shows the array \<open>[0]\<close> as its \<open>likeCount\<close>.
\<close>

theorem likeCount_after_account_deletion:
  "Blog_findById db_orphan_like 10 = Some post1_liked
   \<and> b_likes post1_liked = [2] \<and> card (set (b_likes post1_liked)) = 1
   \<and> Blog_likeCount db_orphan_like post1_liked = CountPerEntry [0]
   \<and> snd (getBlog db_orphan_like 10 8000)
       = Inr \<lparr> bi_doc = post1_liked\<lparr>b_views := 1, b_updatedAt := 8000\<rparr>,
               bi_commentCount = 2, bi_likeCount = CountPerEntry [0] \<rparr>"
  by (simp add: db_orphan_like_def deleteAccount_def likeBlog_def getBlog_def
        Blog_incrementViews_def Blog_toggleLike_def Blog_save_def Blog_findById_def
        Blog_likeCount_def Blog_commentCount_def populatedUserCount_def User_findById_def
        toggleLikes_def jsAdd_def toDouble_def Let_def
        post1_liked_def db0_def post1_def comment1_def comment2_def alice_def bob_def carol_def)

text \<open>
  While every id in \<open>likes\<close> has its user, the populated count is the number of
  entries of the array: 2 for the post with the same id twice.
\<close>

lemma likeCount_counts_entries:
  "set (b_likes b) \<subseteq> set (map u_id (users d)) \<Longrightarrow> Blog_likeCount d b = Count (length (b_likes b))"
  unfolding Blog_likeCount_def by (rule populatedUserCount_all_present)

lemma likeCount_of_repeated_id: "Blog_likeCount db0 post_dup = Count 2"
  by (simp add: Blog_likeCount_def populatedUserCount_def User_findById_def Let_def
        post_dup_def db0_def post1_def alice_def bob_def carol_def)

section \<open>Replies to soft-deleted comments\<close>




end
